theory Spec2Isabelle
  imports Main "HOL-Library.AList"
begin

section \<open>Share tokens of NoteDiscovery (backend/share.py)\<close>

text \<open>
  The module keeps, for every data directory, one JSON file that maps a share token to
  a record of a note: its path, the theme to show it with and the time of creation.
  Every operation loads the whole file, works on the loaded dictionary and, when it
  changes it, writes the whole file back.

  The embedding follows the Python text function by function. A Python dictionary is an
  association list in insertion order (the order in which \<open>items()\<close> and \<open>values()\<close>
  iterate, and the order \<open>json.dump\<close> writes); lookup is \<open>map_of\<close>, assignment to a key
  is \<open>AList.update\<close> (in place when the key is there, at the end otherwise) and \<open>del\<close>
  is \<open>AList.delete\<close>. The keys of a Python dictionary are distinct; where a
  property depends on it, the theorem says so.
\<close>

subsection \<open>Values, exceptions and the world outside the module\<close>

text \<open>
  A stored record is a dictionary from field names to strings, the table a dictionary
  from tokens to records (the annotation \<open>Dict[str, Dict[str, Any]]\<close>, with the strings
  the module itself writes as field values).
\<close>

type_synonym info = "(string \<times> string) list"
type_synonym table = "(string \<times> info) list"

text \<open>
  The values that the readers of the module hand out: \<open>None\<close>, a string or a boolean.
\<close>

datatype pyval = PyNone | Str string | Bool bool

text \<open>
  The exceptions that opening, decoding and parsing the file can raise. \<open>IOError\<close> is
  Python 3's alias of \<open>OSError\<close>. \<open>json.JSONDecodeError\<close> and \<open>UnicodeDecodeError\<close> are
  two different subclasses of \<open>ValueError\<close>: the second is what reading a file opened
  with \<open>encoding='utf-8'\<close> raises on bytes that are not UTF-8.
\<close>

datatype exn = OSError | JSONDecodeError | UnicodeDecodeError

datatype 'a result = Return 'a | Raise exn

text \<open>
  What the token file of a directory is to a reader: absent (\<open>exists()\<close> is false), there
  but raising when opened and parsed, or there and parsing to a table. Writing a table
  with \<open>json.dump\<close> and parsing it back with \<open>json.load\<close> gives the same dictionary with
  the same order of keys, so a written file is represented by the table it holds.
\<close>

datatype token_file = Missing | Unreadable exn | Parsed table

text \<open>
  The world: the token file of every data directory (the file \<open>.share-tokens.json\<close>
  in it, which \<open>get_tokens_file_path\<close> names), whether the directory can be written at
  the moment (\<open>mkdir\<close> and \<open>open(..., 'w')\<close> succeed), the values the secure random
  source will deliver from a cursor on, and the reading of the clock.
  The lock only orders concurrent callers; the embedding is of one caller at a time.
\<close>

record world =
  files :: "string \<Rightarrow> token_file"
  writable :: "string \<Rightarrow> bool"
  entropy :: "nat \<Rightarrow> nat"
  cursor :: nat
  now :: string

subsection \<open>generate_token\<close>

definition ascii_lowercase :: string where
  "ascii_lowercase = ''abcdefghijklmnopqrstuvwxyz''"

definition ascii_uppercase :: string where
  "ascii_uppercase = ''ABCDEFGHIJKLMNOPQRSTUVWXYZ''"

definition ascii_letters :: string where
  "ascii_letters = ascii_lowercase @ ascii_uppercase"

definition digits :: string where
  "digits = ''0123456789''"

definition alphabet :: string where
  "alphabet = ascii_letters @ digits @ ''_-''"

text \<open>
  \<open>secrets.choice(seq)\<close> is \<open>seq[randbelow(len(seq))]\<close>: the next value of the random
  source, brought below the length of the sequence, indexes it.
\<close>

definition choice :: "world \<Rightarrow> string \<Rightarrow> char \<times> world" where
  "choice w seq =
     (seq ! (entropy w (cursor w) mod length seq), w\<lparr>cursor := Suc (cursor w)\<rparr>)"

text \<open>The generator expression under \<open>''.join\<close>: one choice per element of the range.\<close>

fun join_choices :: "nat \<Rightarrow> world \<Rightarrow> string \<times> world" where
  "join_choices 0 w = ([], w)"
| "join_choices (Suc k) w =
     (case choice w alphabet of (c, w1) \<Rightarrow>
        (case join_choices k w1 of (cs, w2) \<Rightarrow> (c # cs, w2)))"

text \<open>\<open>range(length)\<close> is empty for a length below one, hence \<open>nat len\<close>.\<close>

definition generate_token :: "world \<Rightarrow> int \<Rightarrow> string \<times> world" where
  "generate_token w len = join_choices (nat len) w"

definition default_length :: int where
  "default_length = 16"

subsection \<open>load_tokens and save_tokens\<close>

text \<open>
  \<open>load_tokens\<close> returns the empty dictionary for an absent file and for a file whose
  reading raises one of the two exceptions of its \<open>except\<close> clause; any other exception
  leaves the function.
\<close>

definition load_tokens :: "world \<Rightarrow> string \<Rightarrow> table result" where
  "load_tokens w data_dir =
     (case files w data_dir of
        Missing \<Rightarrow> Return []
      | Parsed tokens \<Rightarrow> Return tokens
      | Unreadable e \<Rightarrow>
          (if e = JSONDecodeError \<or> e = OSError then Return [] else Raise e))"

text \<open>
  \<open>save_tokens\<close> writes the table and returns \<open>True\<close>, or catches the \<open>IOError\<close> of a
  directory that cannot be written and returns \<open>False\<close>, the file staying as it was
  (a write that breaks off after the file was opened is not modelled); the diagnostic
  it prints then is not part of the world.
\<close>

definition save_tokens :: "world \<Rightarrow> string \<Rightarrow> table \<Rightarrow> bool \<times> world" where
  "save_tokens w data_dir tokens =
     (if writable w data_dir
      then (True, w\<lparr>files := (files w)(data_dir := Parsed tokens)\<rparr>)
      else (False, w))"

subsection \<open>The operations on the table\<close>

text \<open>\<open>info.get(key)\<close> and \<open>info.get(key, default)\<close>.\<close>

definition dict_get :: "info \<Rightarrow> string \<Rightarrow> pyval" where
  "dict_get info key = (case map_of info key of None \<Rightarrow> PyNone | Some s \<Rightarrow> Str s)"

definition dict_get_default :: "info \<Rightarrow> string \<Rightarrow> string \<Rightarrow> pyval" where
  "dict_get_default info key dflt =
     (case map_of info key of None \<Rightarrow> Str dflt | Some s \<Rightarrow> Str s)"

text \<open>Python's truth value of such a value, as \<open>if x:\<close> tests it.\<close>

fun truthy :: "pyval \<Rightarrow> bool" where
  "truthy PyNone = False"
| "truthy (Str s) = (s \<noteq> [])"
| "truthy (Bool b) = b"

text \<open>
  The scan \<open>for token, info in tokens.items(): if info.get('path') == note_path\<close>, which
  five of the functions run and leave at the first match.
\<close>

fun first_match :: "table \<Rightarrow> string \<Rightarrow> (string \<times> info) option" where
  "first_match [] note_path = None"
| "first_match ((token, info) # rest) note_path =
     (if dict_get info ''path'' = Str note_path then Some (token, info)
      else first_match rest note_path)"

text \<open>
  The loop \<open>while token in tokens: token = generate_token()\<close>. Nothing bounds the number
  of its rounds, so it is a partial function: \<open>None\<close> is the loop that never ends.
\<close>

partial_function (option) regenerate :: "table \<Rightarrow> string \<Rightarrow> world \<Rightarrow> (string \<times> world) option" where
  [code]: "regenerate tokens token w =
     (if token \<in> set (map fst tokens)
      then regenerate tokens (fst (generate_token w default_length))
             (snd (generate_token w default_length))
      else Some (token, w))"

definition create_share_token ::
  "world \<Rightarrow> string \<Rightarrow> string \<Rightarrow> string \<Rightarrow> (string option result \<times> world) option" where
  "create_share_token w data_dir note_path theme =
     (case load_tokens w data_dir of
        Raise e \<Rightarrow> Some (Raise e, w)
      | Return tokens \<Rightarrow>
          (case first_match tokens note_path of
             Some (token, info) \<Rightarrow> Some (Return (Some token), w)
           | None \<Rightarrow>
               (case generate_token w default_length of (token0, w0) \<Rightarrow>
                  (case regenerate tokens token0 w0 of
                     None \<Rightarrow> None
                   | Some (token, w1) \<Rightarrow>
                       (case save_tokens w1 data_dir
                               (AList.update token
                                  [(''path'', note_path), (''theme'', theme), (''created'', now w1)]
                                  tokens) of
                          (saved, w2) \<Rightarrow>
                            Some (Return (if saved then Some token else None), w2))))))"

definition get_share_token :: "world \<Rightarrow> string \<Rightarrow> string \<Rightarrow> string option result" where
  "get_share_token w data_dir note_path =
     (case load_tokens w data_dir of
        Raise e \<Rightarrow> Raise e
      | Return tokens \<Rightarrow>
          (case first_match tokens note_path of
             Some (token, info) \<Rightarrow> Return (Some token)
           | None \<Rightarrow> Return None))"

definition get_note_by_token ::
  "world \<Rightarrow> string \<Rightarrow> string \<Rightarrow> (string \<times> pyval) list option result" where
  "get_note_by_token w data_dir token =
     (case load_tokens w data_dir of
        Raise e \<Rightarrow> Raise e
      | Return tokens \<Rightarrow>
          (case map_of tokens token of
             Some info \<Rightarrow>
               Return (Some [(''path'', dict_get info ''path''),
                             (''theme'', dict_get_default info ''theme'' ''light'')])
           | None \<Rightarrow> Return None))"

definition get_all_shared_paths :: "world \<Rightarrow> string \<Rightarrow> pyval list result" where
  "get_all_shared_paths w data_dir =
     (case load_tokens w data_dir of
        Raise e \<Rightarrow> Raise e
      | Return tokens \<Rightarrow>
          Return (map (\<lambda>info. dict_get info ''path'')
                    (filter (\<lambda>info. truthy (dict_get info ''path'')) (map snd tokens))))"

text \<open>
  \<open>revoke_share_token\<close> tests \<open>if token_to_remove:\<close>, the truth value of the token found,
  so a match whose token is the empty string is treated as no match.
\<close>

definition revoke_share_token :: "world \<Rightarrow> string \<Rightarrow> string \<Rightarrow> bool result \<times> world" where
  "revoke_share_token w data_dir note_path =
     (case load_tokens w data_dir of
        Raise e \<Rightarrow> (Raise e, w)
      | Return tokens \<Rightarrow>
          (case first_match tokens note_path of
             Some (token_to_remove, info) \<Rightarrow>
               (if token_to_remove \<noteq> []
                then (case save_tokens w data_dir (AList.delete token_to_remove tokens) of
                        (saved, w1) \<Rightarrow> (Return saved, w1))
                else (Return False, w))
           | None \<Rightarrow> (Return False, w)))"

definition get_share_info :: "world \<Rightarrow> string \<Rightarrow> string \<Rightarrow> (string \<times> pyval) list result" where
  "get_share_info w data_dir note_path =
     (case load_tokens w data_dir of
        Raise e \<Rightarrow> Raise e
      | Return tokens \<Rightarrow>
          (case first_match tokens note_path of
             Some (token, info) \<Rightarrow>
               Return [(''token'', Str token),
                       (''theme'', dict_get_default info ''theme'' ''light''),
                       (''created'', dict_get info ''created''),
                       (''shared'', Bool True)]
           | None \<Rightarrow> Return [(''shared'', Bool False)]))"

text \<open>
  The loop of \<open>update_token_path\<close>: the first record whose path is \<open>old_path\<close> gets the
  new path, in place; \<open>None\<close> when the loop ends without a match.
\<close>

fun set_path :: "table \<Rightarrow> string \<Rightarrow> string \<Rightarrow> table option" where
  "set_path [] old_path new_path = None"
| "set_path ((token, info) # rest) old_path new_path =
     (if dict_get info ''path'' = Str old_path
      then Some ((token, AList.update ''path'' new_path info) # rest)
      else map_option (Cons (token, info)) (set_path rest old_path new_path))"

definition update_token_path :: "world \<Rightarrow> string \<Rightarrow> string \<Rightarrow> string \<Rightarrow> bool result \<times> world" where
  "update_token_path w data_dir old_path new_path =
     (case load_tokens w data_dir of
        Raise e \<Rightarrow> (Raise e, w)
      | Return tokens \<Rightarrow>
          (case set_path tokens old_path new_path of
             Some tokens' \<Rightarrow>
               (case save_tokens w data_dir tokens' of (saved, w1) \<Rightarrow> (Return saved, w1))
           | None \<Rightarrow> (Return False, w)))"

definition delete_token_for_note :: "world \<Rightarrow> string \<Rightarrow> string \<Rightarrow> bool result \<times> world" where
  "delete_token_for_note w data_dir note_path = revoke_share_token w data_dir note_path"

subsection \<open>Notions the properties are stated with\<close>

text \<open>The records of a table whose path is the given one, in the order of the table.\<close>

definition records_for :: "table \<Rightarrow> string \<Rightarrow> (string \<times> info) list" where
  "records_for tokens note_path =
     filter (\<lambda>(token, info). dict_get info ''path'' = Str note_path) tokens"

text \<open>
  Two worlds to run the operations in: one whose directories hold no token file yet, and
  one where the directory \<open>data\<close> has a file with one shared note.
\<close>

definition fresh_world :: world where
  "fresh_world =
     \<lparr>files = (\<lambda>d. Missing), writable = (\<lambda>d. True), entropy = (\<lambda>i. i), cursor = 0,
      now = ''2024-01-15T10:30:00+00:00''\<rparr>"

definition shared_table :: table where
  "shared_table =
     [(''Ab3_xY-0Ab3_xY-0'',
       [(''path'', ''notes/a.md''), (''theme'', ''dark''),
        (''created'', ''2024-01-15T10:30:00+00:00'')])]"

definition shared_world :: world where
  "shared_world = fresh_world\<lparr>files := (\<lambda>d. Missing)(''data'' := Parsed shared_table)\<rparr>"

text \<open>
  The world after the note of \<open>shared_world\<close> was renamed; a world where two tokens
  have the same path, and the world after \<open>a.md\<close> was renamed there; a world with a
  record written without a theme.
\<close>

definition renamed_table :: table where
  "renamed_table =
     [(''Ab3_xY-0Ab3_xY-0'',
       [(''path'', ''notes/b.md''), (''theme'', ''dark''),
        (''created'', ''2024-01-15T10:30:00+00:00'')])]"

definition renamed_world :: world where
  "renamed_world = fresh_world\<lparr>files := (\<lambda>d. Missing)(''data'' := Parsed renamed_table)\<rparr>"

definition twin_table :: table where
  "twin_table =
     [(''tokenAAAAAAAAAAA'',
       [(''path'', ''a.md''), (''theme'', ''dark''),
        (''created'', ''2024-01-15T10:30:00+00:00'')]),
      (''tokenBBBBBBBBBBB'',
       [(''path'', ''a.md''), (''theme'', ''light''),
        (''created'', ''2024-01-16T08:00:00+00:00'')])]"

definition twin_world :: world where
  "twin_world = fresh_world\<lparr>files := (\<lambda>d. Missing)(''data'' := Parsed twin_table)\<rparr>"

definition twin_renamed_table :: table where
  "twin_renamed_table =
     [(''tokenAAAAAAAAAAA'',
       [(''path'', ''b.md''), (''theme'', ''dark''),
        (''created'', ''2024-01-15T10:30:00+00:00'')]),
      (''tokenBBBBBBBBBBB'',
       [(''path'', ''a.md''), (''theme'', ''light''),
        (''created'', ''2024-01-16T08:00:00+00:00'')])]"

definition twin_renamed_world :: world where
  "twin_renamed_world =
     fresh_world\<lparr>files := (\<lambda>d. Missing)(''data'' := Parsed twin_renamed_table)\<rparr>"

definition legacy_table :: table where
  "legacy_table =
     [(''tokenAAAAAAAAAAA'',
       [(''path'', ''a.md''), (''theme'', ''dark''),
        (''created'', ''2024-01-15T10:30:00+00:00'')]),
      (''tokenBBBBBBBBBBB'', [(''path'', ''a.md'')])]"

definition legacy_world :: world where
  "legacy_world = fresh_world\<lparr>files := (\<lambda>d. Missing)(''data'' := Parsed legacy_table)\<rparr>"

text \<open>
  A world whose only record was written without a theme, and the world after the first
  \<open>create_share_token\<close> in \<open>fresh_world\<close>.
\<close>

definition legacy_single_table :: table where
  "legacy_single_table = [(''tokenBBBBBBBBBBB'', [(''path'', ''a.md'')])]"

definition legacy_single_world :: world where
  "legacy_single_world =
     fresh_world\<lparr>files := (\<lambda>d. Missing)(''data'' := Parsed legacy_single_table)\<rparr>"

definition first_table :: table where
  "first_table =
     [(''abcdefghijklmnop'',
       [(''path'', ''notes/a.md''), (''theme'', ''dark''),
        (''created'', ''2024-01-15T10:30:00+00:00'')])]"

definition first_world :: world where
  "first_world =
     fresh_world\<lparr>files := (\<lambda>d. Missing)(''data'' := Parsed first_table), cursor := 16\<rparr>"

subsection \<open>The tables the operations can reach\<close>

text \<open>
  The worlds that a sequence of \<open>create_share_token\<close>, \<open>revoke_share_token\<close> and
  \<open>update_token_path\<close> calls reaches from a world without token files; between the calls
  the world outside may change what it likes but the files. \<open>reachable_apart\<close> admits a
  rename only to the same path or to a path no record has yet.
\<close>

inductive reachable :: "world \<Rightarrow> bool" where
  start: "\<forall>d. files w d = Missing \<Longrightarrow> reachable w"
| create: "reachable w \<Longrightarrow> create_share_token w d p t = Some (r, w') \<Longrightarrow> reachable w'"
| revoke: "reachable w \<Longrightarrow> revoke_share_token w d p = (r, w') \<Longrightarrow> reachable w'"
| update: "reachable w \<Longrightarrow> update_token_path w d old_path new_path = (r, w') \<Longrightarrow>
             reachable w'"
| outside: "reachable w \<Longrightarrow> files w' = files w \<Longrightarrow> reachable w'"

inductive reachable_apart :: "world \<Rightarrow> bool" where
  start: "\<forall>d. files w d = Missing \<Longrightarrow> reachable_apart w"
| create: "reachable_apart w \<Longrightarrow> create_share_token w d p t = Some (r, w') \<Longrightarrow>
             reachable_apart w'"
| revoke: "reachable_apart w \<Longrightarrow> revoke_share_token w d p = (r, w') \<Longrightarrow>
             reachable_apart w'"
| update: "reachable_apart w \<Longrightarrow>
             new_path = old_path \<or> get_share_token w d new_path = Return None \<Longrightarrow>
             update_token_path w d old_path new_path = (r, w') \<Longrightarrow> reachable_apart w'"
| outside: "reachable_apart w \<Longrightarrow> files w' = files w \<Longrightarrow> reachable_apart w'"

definition one_token_per_path :: "world \<Rightarrow> bool" where
  "one_token_per_path w =
     (\<forall>d tokens p. files w d = Parsed tokens \<longrightarrow> length (records_for tokens p) \<le> 1)"

text \<open>
  The worlds after a second \<open>create_share_token\<close> for another note, after renaming the
  first note to the path of the second, and after renaming it to an unused path.
\<close>

definition second_table :: table where
  "second_table =
     [(''abcdefghijklmnop'',
       [(''path'', ''notes/a.md''), (''theme'', ''dark''),
        (''created'', ''2024-01-15T10:30:00+00:00'')]),
      (''qrstuvwxyzABCDEF'',
       [(''path'', ''notes/b.md''), (''theme'', ''light''),
        (''created'', ''2024-01-15T10:30:00+00:00'')])]"

definition second_world :: world where
  "second_world =
     fresh_world\<lparr>files := (\<lambda>d. Missing)(''data'' := Parsed second_table), cursor := 32\<rparr>"

definition clash_table :: table where
  "clash_table =
     [(''abcdefghijklmnop'',
       [(''path'', ''notes/b.md''), (''theme'', ''dark''),
        (''created'', ''2024-01-15T10:30:00+00:00'')]),
      (''qrstuvwxyzABCDEF'',
       [(''path'', ''notes/b.md''), (''theme'', ''light''),
        (''created'', ''2024-01-15T10:30:00+00:00'')])]"

definition clash_world :: world where
  "clash_world =
     fresh_world\<lparr>files := (\<lambda>d. Missing)(''data'' := Parsed clash_table), cursor := 32\<rparr>"

definition moved_table :: table where
  "moved_table =
     [(''abcdefghijklmnop'',
       [(''path'', ''notes/c.md''), (''theme'', ''dark''),
        (''created'', ''2024-01-15T10:30:00+00:00'')])]"

definition moved_world :: world where
  "moved_world =
     fresh_world\<lparr>files := (\<lambda>d. Missing)(''data'' := Parsed moved_table), cursor := 16\<rparr>"

text \<open>
  A world whose file has a record under the empty string as token, and a world whose
  file holds bytes that are not UTF-8.
\<close>

definition empty_key_table :: table where
  "empty_key_table =
     [('''',
       [(''path'', ''a.md''), (''theme'', ''light''),
        (''created'', ''2024-01-15T10:30:00+00:00'')])]"

definition empty_key_world :: world where
  "empty_key_world =
     fresh_world\<lparr>files := (\<lambda>d. Missing)(''data'' := Parsed empty_key_table)\<rparr>"

definition undecodable_world :: world where
  "undecodable_world =
     fresh_world\<lparr>files := (\<lambda>d. Missing)(''data'' := Unreadable UnicodeDecodeError)\<rparr>"

section \<open>Properties\<close>

subsection \<open>The token generator\<close>

lemma alphabet_length: "length alphabet = 64"
  by (simp add: alphabet_def ascii_letters_def ascii_lowercase_def ascii_uppercase_def
        digits_def)

lemma alphabet_distinct: "distinct alphabet"
  by (simp add: alphabet_def ascii_letters_def ascii_lowercase_def ascii_uppercase_def
        digits_def)

lemma alphabet_symbols:
  "of_char ` set alphabet = ({65..90} \<union> {97..122} \<union> {48..57} \<union> {95, 45} :: nat set)"
  by code_simp

lemma choice_in_alphabet: "fst (choice w alphabet) \<in> set alphabet"
  by (simp add: choice_def alphabet_length)

lemma join_choices_length: "length (fst (join_choices k w)) = k"
proof (induction k arbitrary: w)
  case 0
  show ?case by simp
next
  case (Suc k)
  obtain c w1 where c: "choice w alphabet = (c, w1)" by (cases "choice w alphabet")
  obtain cs w2 where cs: "join_choices k w1 = (cs, w2)" by (cases "join_choices k w1")
  from cs have "length cs = k" using Suc.IH[of w1] by simp
  with c cs show ?case by simp
qed

lemma join_choices_alphabet: "set (fst (join_choices k w)) \<subseteq> set alphabet"
proof (induction k arbitrary: w)
  case 0
  show ?case by simp
next
  case (Suc k)
  obtain c w1 where c: "choice w alphabet = (c, w1)" by (cases "choice w alphabet")
  obtain cs w2 where cs: "join_choices k w1 = (cs, w2)" by (cases "join_choices k w1")
  from c have "c \<in> set alphabet" using choice_in_alphabet[of w] by simp
  moreover from cs have "set cs \<subseteq> set alphabet" using Suc.IH[of w1] by simp
  ultimately show ?case using c cs by simp
qed

text \<open>
  Claim C9. For every length \<open>n\<close>, \<open>generate_token(n)\<close> returns a string of exactly \<open>n\<close>
  characters, each of them from the alphabet; the alphabet has 64 different symbols,
  which are the letters \<open>A\<close> to \<open>Z\<close> (codes 65 to 90) and \<open>a\<close> to \<open>z\<close> (97 to 122), the
  digits (48 to 57), the underscore (95) and the hyphen (45); the default length is 16.
\<close>

theorem generate_token_length_alphabet:
  "0 \<le> n \<Longrightarrow>
     int (length (fst (generate_token w n))) = n \<and>
     set (fst (generate_token w n)) \<subseteq> set alphabet \<and>
     length alphabet = 64 \<and> distinct alphabet \<and>
     of_char ` set alphabet = ({65..90} \<union> {97..122} \<union> {48..57} \<union> {95, 45} :: nat set) \<and>
     length (fst (generate_token w default_length)) = 16"
  by (simp add: generate_token_def default_length_def join_choices_length
        join_choices_alphabet alphabet_length alphabet_distinct alphabet_symbols)

theorem generate_token_length_alphabet_witness:
  "(0::int) \<le> 3 \<and> fst (generate_token fresh_world 3) = ''abc'' \<and>
   int (length (fst (generate_token fresh_world 3))) = 3 \<and>
   set (fst (generate_token fresh_world 3)) \<subseteq> set alphabet"
proof -
  have h: "(0::int) \<le> 3" by simp
  have v: "fst (generate_token fresh_world 3) = ''abc''" by code_simp
  note t = generate_token_length_alphabet [OF h, of fresh_world]
  show ?thesis
    by (intro conjI h v t [THEN conjunct1] t [THEN conjunct2, THEN conjunct1])
qed

subsection \<open>The scan for a path\<close>

lemma first_match_records:
  "first_match tokens p = (case records_for tokens p of [] \<Rightarrow> None | r # _ \<Rightarrow> Some r)"
  by (induction tokens) (auto simp: records_for_def)

lemma first_match_mem:
  "first_match tokens p = Some (token, info) \<Longrightarrow>
     (token, info) \<in> set tokens \<and> dict_get info ''path'' = Str p"
  by (induction tokens) (auto split: if_splits)

lemma first_match_map_of:
  "distinct (map fst tokens) \<Longrightarrow> first_match tokens p = Some (token, info) \<Longrightarrow>
     map_of tokens token = Some info"
  using first_match_mem[of tokens p token info] by simp

lemma records_for_delete:
  "records_for (AList.delete k tokens) p = filter (\<lambda>r. fst r \<noteq> k) (records_for tokens p)"
  by (induction tokens) (auto simp: records_for_def AList.delete_eq)

lemma load_tokens_written [simp]:
  "load_tokens (w\<lparr>files := (files w)(d := Parsed tokens)\<rparr>) d = Return tokens"
  by (simp add: load_tokens_def)

lemma load_tokens_shared_world: "load_tokens shared_world ''data'' = Return shared_table"
  by (simp add: shared_world_def load_tokens_def)

lemma first_match_shared_table:
  "first_match shared_table ''notes/a.md'' = Some (hd shared_table)"
  by (simp add: shared_table_def dict_get_def)

subsection \<open>Creating a token twice\<close>

text \<open>
  Claim C3. When the table already has a record for the path, \<open>create_share_token\<close>
  returns the token of that record whatever theme it is given, and leaves the world as it
  was: nothing is written, so the stored theme stays the one of the first call.
\<close>

theorem create_share_token_idempotent:
  "get_share_token w data_dir note_path = Return (Some token) \<Longrightarrow>
     create_share_token w data_dir note_path theme2 = Some (Return (Some token), w)"
  by (auto simp: get_share_token_def create_share_token_def
           split: result.splits option.splits)

theorem create_share_token_idempotent_witness:
  "get_share_token shared_world ''data'' ''notes/a.md'' = Return (Some ''Ab3_xY-0Ab3_xY-0'') \<and>
   create_share_token shared_world ''data'' ''notes/a.md'' ''light'' =
     Some (Return (Some ''Ab3_xY-0Ab3_xY-0''), shared_world)"
proof -
  have h: "get_share_token shared_world ''data'' ''notes/a.md'' =
             Return (Some ''Ab3_xY-0Ab3_xY-0'')"
    by (simp add: get_share_token_def load_tokens_shared_world first_match_shared_table)
       (simp add: shared_table_def)
  from h create_share_token_idempotent [OF h, of "''light''"] show ?thesis by simp
qed

subsection \<open>Revoking\<close>

lemma revoke_True:
  assumes "revoke_share_token w d p = (Return True, w')"
  obtains tokens token info where
    "load_tokens w d = Return tokens" "first_match tokens p = Some (token, info)"
    "token \<noteq> []" "writable w d"
    "w' = w\<lparr>files := (files w)(d := Parsed (AList.delete token tokens))\<rparr>"
  using assms
  by (auto simp: revoke_share_token_def save_tokens_def
           split: result.splits option.splits if_splits)

text \<open>
  Claim C4. When exactly one record of the table has the path and \<open>revoke_share_token\<close>
  returns \<open>True\<close>, then afterwards \<open>get_share_token\<close> returns \<open>None\<close> for the path,
  \<open>get_share_info\<close> returns \<open>{'shared': False}\<close> and the path is not among
  \<open>get_all_shared_paths\<close>.
\<close>

theorem revoke_clears_views:
  assumes "load_tokens w data_dir = Return tokens"
      and "length (records_for tokens note_path) = 1"
      and "revoke_share_token w data_dir note_path = (Return True, w')"
    shows "get_share_token w' data_dir note_path = Return None \<and>
           get_share_info w' data_dir note_path = Return [(''shared'', Bool False)] \<and>
           (\<exists>paths. get_all_shared_paths w' data_dir = Return paths \<and>
                    Str note_path \<notin> set paths)"
proof -
  from assms(3) obtain tokens0 token info where
    l: "load_tokens w data_dir = Return tokens0" and
    f: "first_match tokens0 note_path = Some (token, info)" and
    w': "w' = w\<lparr>files := (files w)(data_dir := Parsed (AList.delete token tokens0))\<rparr>"
    by (rule revoke_True)
  from l assms(1) have [simp]: "tokens0 = tokens" by simp
  from f assms(2) have r: "records_for tokens note_path = [(token, info)]"
    by (cases "records_for tokens note_path") (auto simp: first_match_records)
  have none: "records_for (AList.delete token tokens) note_path = []"
    by (simp add: records_for_delete r)
  have fm: "first_match (AList.delete token tokens) note_path = None"
    by (simp add: first_match_records none)
  have np: "\<forall>(t, i) \<in> set (AList.delete token tokens). dict_get i ''path'' \<noteq> Str note_path"
    using none by (auto simp: records_for_def filter_empty_conv)
  show ?thesis
    using fm np
    by (auto simp: w' get_share_token_def get_share_info_def get_all_shared_paths_def)
qed

theorem revoke_clears_views_witness:
  "load_tokens shared_world ''data'' = Return shared_table \<and>
   length (records_for shared_table ''notes/a.md'') = 1 \<and>
   revoke_share_token shared_world ''data'' ''notes/a.md'' =
     (Return True, shared_world\<lparr>files := (files shared_world)(''data'' := Parsed [])\<rparr>) \<and>
   get_share_info (shared_world\<lparr>files := (files shared_world)(''data'' := Parsed [])\<rparr>)
     ''data'' ''notes/a.md'' = Return [(''shared'', Bool False)]"
proof -
  have r: "length (records_for shared_table ''notes/a.md'') = 1"
    by (simp add: records_for_def shared_table_def dict_get_def)
  have v: "revoke_share_token shared_world ''data'' ''notes/a.md'' =
     (Return True, shared_world\<lparr>files := (files shared_world)(''data'' := Parsed [])\<rparr>)"
    by (simp add: revoke_share_token_def load_tokens_shared_world first_match_shared_table)
       (simp add: save_tokens_def shared_table_def shared_world_def fresh_world_def
          AList.delete_eq)
  from revoke_clears_views [OF load_tokens_shared_world r v] load_tokens_shared_world r v
  show ?thesis by simp
qed

subsection \<open>Renaming\<close>

lemma first_match_append:
  "first_match (pre @ rest) p =
     (case first_match pre p of Some r \<Rightarrow> Some r | None \<Rightarrow> first_match rest p)"
  by (induction pre) auto

lemma records_for_append:
  "records_for (pre @ rest) p = records_for pre p @ records_for rest p"
  by (simp add: records_for_def)

lemma set_path_Some:
  "set_path tokens old_path new_path = Some tokens' \<Longrightarrow>
     \<exists>pre token info post.
       tokens = pre @ (token, info) # post \<and> first_match pre old_path = None \<and>
       dict_get info ''path'' = Str old_path \<and>
       tokens' = pre @ (token, AList.update ''path'' new_path info) # post"
proof (induction tokens arbitrary: tokens')
  case Nil
  then show ?case by simp
next
  case (Cons r tokens)
  obtain token info where r: "r = (token, info)" by (cases r)
  show ?case
  proof (cases "dict_get info ''path'' = Str old_path")
    case True
    with Cons.prems r
    have "r # tokens = [] @ (token, info) # tokens \<and> first_match [] old_path = None \<and>
          dict_get info ''path'' = Str old_path \<and>
          tokens' = [] @ (token, AList.update ''path'' new_path info) # tokens"
      by auto
    then show ?thesis by blast
  next
    case False
    with Cons.prems r obtain rest' where
      s: "set_path tokens old_path new_path = Some rest'" and t: "tokens' = r # rest'"
      by auto
    from Cons.IH[OF s] obtain pre token1 info1 post where
      d: "tokens = pre @ (token1, info1) # post" "first_match pre old_path = None"
         "dict_get info1 ''path'' = Str old_path"
         "rest' = pre @ (token1, AList.update ''path'' new_path info1) # post"
      by blast
    from d t r False
    have "r # tokens = (r # pre) @ (token1, info1) # post \<and>
          first_match (r # pre) old_path = None \<and>
          dict_get info1 ''path'' = Str old_path \<and>
          tokens' = (r # pre) @ (token1, AList.update ''path'' new_path info1) # post"
      by simp
    then show ?thesis by blast
  qed
qed

lemma dict_get_update:
  "dict_get (AList.update k v info) key = (if key = k then Str v else dict_get info key)"
  by (simp add: dict_get_def AList.update_conv')

lemma dict_get_keys: "dict_get info key = Str s \<Longrightarrow> key \<in> set (map fst info)"
  by (auto simp: dict_get_def map_of_eq_None_iff split: option.splits)
     (metis fst_conv image_eqI map_of_SomeD)

lemma update_token_path_True:
  assumes "update_token_path w d old_path new_path = (Return True, w')"
  obtains tokens tokens' where
    "load_tokens w d = Return tokens" "set_path tokens old_path new_path = Some tokens'"
    "writable w d" "w' = w\<lparr>files := (files w)(d := Parsed tokens')\<rparr>"
  using assms
  by (auto simp: update_token_path_def save_tokens_def
           split: result.splits option.splits if_splits)

text \<open>
  Claim C10. A successful \<open>update_token_path\<close> changes the path of the first record that
  matches the old path and nothing else: the table before is \<open>pre @ (token, info) # post\<close>
  with no match in \<open>pre\<close>, the table written is the same with the path of \<open>info\<close>
  updated; the record keeps its token, its keys and the value of every key other than
  \<open>path\<close> (so its theme and its time of creation), the records before and after it are
  the same, and the files of other directories are untouched.
\<close>

theorem update_token_path_frame:
  assumes "load_tokens w data_dir = Return tokens"
      and "update_token_path w data_dir old_path new_path = (Return True, w')"
    shows "\<exists>pre token info post.
             tokens = pre @ (token, info) # post \<and>
             first_match pre old_path = None \<and>
             dict_get info ''path'' = Str old_path \<and>
             load_tokens w' data_dir =
               Return (pre @ (token, AList.update ''path'' new_path info) # post) \<and>
             map fst (AList.update ''path'' new_path info) = map fst info \<and>
             (\<forall>key. key \<noteq> ''path'' \<longrightarrow>
                    map_of (AList.update ''path'' new_path info) key = map_of info key) \<and>
             (\<forall>d. d \<noteq> data_dir \<longrightarrow> files w' d = files w d)"
proof -
  from assms(2) obtain tokens0 tokens' where
    l: "load_tokens w data_dir = Return tokens0" and
    s: "set_path tokens0 old_path new_path = Some tokens'" and
    w': "w' = w\<lparr>files := (files w)(data_dir := Parsed tokens')\<rparr>"
    by (rule update_token_path_True)
  from l assms(1) have eq: "tokens0 = tokens" by simp
  from set_path_Some[OF s] eq obtain pre token info post where
    d: "tokens = pre @ (token, info) # post" "first_match pre old_path = None"
       "dict_get info ''path'' = Str old_path"
       "tokens' = pre @ (token, AList.update ''path'' new_path info) # post"
    by blast
  have k: "map fst (AList.update ''path'' new_path info) = map fst info"
    using dict_get_keys[OF d(3)] by (simp add: AList.update_keys)
  have m: "\<forall>key. key \<noteq> ''path'' \<longrightarrow>
             map_of (AList.update ''path'' new_path info) key = map_of info key"
    by (simp add: AList.update_conv')
  have f: "\<forall>da. da \<noteq> data_dir \<longrightarrow> files w' da = files w da"
    by (simp add: w')
  have ld: "load_tokens w' data_dir =
              Return (pre @ (token, AList.update ''path'' new_path info) # post)"
    by (simp add: w' d(4))
  from d(1,2,3) ld k m f show ?thesis by blast
qed

lemma load_tokens_renamed_world: "load_tokens renamed_world ''data'' = Return renamed_table"
  by (simp add: renamed_world_def load_tokens_def)

lemma load_tokens_twin_world: "load_tokens twin_world ''data'' = Return twin_table"
  by (simp add: twin_world_def load_tokens_def)

lemma load_tokens_twin_renamed_world:
  "load_tokens twin_renamed_world ''data'' = Return twin_renamed_table"
  by (simp add: twin_renamed_world_def load_tokens_def)

lemma load_tokens_legacy_world: "load_tokens legacy_world ''data'' = Return legacy_table"
  by (simp add: legacy_world_def load_tokens_def)

lemma update_shared_world:
  "update_token_path shared_world ''data'' ''notes/a.md'' ''notes/b.md'' =
     (Return True, renamed_world)"
  by (simp add: update_token_path_def load_tokens_shared_world)
     (simp add: shared_table_def renamed_table_def dict_get_def save_tokens_def
        shared_world_def renamed_world_def fresh_world_def)

lemma update_twin_world:
  "update_token_path twin_world ''data'' ''a.md'' ''b.md'' = (Return True, twin_renamed_world)"
  by (simp add: update_token_path_def load_tokens_twin_world)
     (simp add: twin_table_def twin_renamed_table_def dict_get_def save_tokens_def
        twin_world_def twin_renamed_world_def fresh_world_def)

theorem update_token_path_frame_witness:
  "load_tokens shared_world ''data'' = Return shared_table \<and>
   update_token_path shared_world ''data'' ''notes/a.md'' ''notes/b.md'' =
     (Return True, renamed_world) \<and>
   load_tokens renamed_world ''data'' = Return renamed_table \<and>
   (\<exists>pre token info post.
      shared_table = pre @ (token, info) # post \<and>
      first_match pre ''notes/a.md'' = None \<and>
      dict_get info ''path'' = Str ''notes/a.md'' \<and>
      load_tokens renamed_world ''data'' =
        Return (pre @ (token, AList.update ''path'' ''notes/b.md'' info) # post) \<and>
      map fst (AList.update ''path'' ''notes/b.md'' info) = map fst info \<and>
      (\<forall>key. key \<noteq> ''path'' \<longrightarrow>
             map_of (AList.update ''path'' ''notes/b.md'' info) key = map_of info key) \<and>
      (\<forall>d. d \<noteq> ''data'' \<longrightarrow> files renamed_world d = files shared_world d))"
  by (intro conjI load_tokens_shared_world update_shared_world load_tokens_renamed_world
        update_token_path_frame [OF load_tokens_shared_world update_shared_world])


text \<open>
  Claim C5, as amended. Let \<open>token\<close> be the token that \<open>get_share_token\<close> returns for the
  old path, that is the token of the first record with that path. When
  \<open>update_token_path\<close> returns \<open>True\<close>, \<open>get_note_by_token\<close> returns for this token a
  record whose path is the new path; and when the new path differs from the old one and
  no other record had the old path, \<open>get_share_token\<close> returns \<open>None\<close> for the old path.
\<close>

theorem update_token_path_keeps_token:
  assumes "load_tokens w data_dir = Return tokens"
      and "distinct (map fst tokens)"
      and "get_share_token w data_dir old_path = Return (Some token)"
      and "update_token_path w data_dir old_path new_path = (Return True, w')"
    shows "(\<exists>theme. get_note_by_token w' data_dir token =
                     Return (Some [(''path'', Str new_path), (''theme'', theme)])) \<and>
           (old_path \<noteq> new_path \<and> length (records_for tokens old_path) = 1 \<longrightarrow>
              get_share_token w' data_dir old_path = Return None)"
proof -
  from assms(4) obtain tokens0 tokens' where
    l: "load_tokens w data_dir = Return tokens0" and
    s: "set_path tokens0 old_path new_path = Some tokens'" and
    w': "w' = w\<lparr>files := (files w)(data_dir := Parsed tokens')\<rparr>"
    by (rule update_token_path_True)
  from l assms(1) have eq: "tokens0 = tokens" by simp
  from set_path_Some[OF s] eq obtain pre token1 info post where
    d: "tokens = pre @ (token1, info) # post" "first_match pre old_path = None"
       "dict_get info ''path'' = Str old_path"
       "tokens' = pre @ (token1, AList.update ''path'' new_path info) # post"
    by blast
  have "first_match tokens old_path = Some (token1, info)"
    by (simp add: d(1,2,3) first_match_append)
  with assms(1,3) have t: "token1 = token"
    by (simp add: get_share_token_def)
  have keys: "map fst tokens' = map fst tokens"
    by (simp add: d(1,4))
  with assms(2) have "distinct (map fst tokens')" by simp
  moreover have "(token, AList.update ''path'' new_path info) \<in> set tokens'"
    by (simp add: d(4) t)
  ultimately have m: "map_of tokens' token = Some (AList.update ''path'' new_path info)"
    by simp
  have a: "\<exists>theme. get_note_by_token w' data_dir token =
                     Return (Some [(''path'', Str new_path), (''theme'', theme)])"
    by (simp add: get_note_by_token_def w' m dict_get_update)
  have b: "get_share_token w' data_dir old_path = Return None"
    if ne: "old_path \<noteq> new_path" and one: "length (records_for tokens old_path) = 1"
  proof -
    from one have "records_for pre old_path = [] \<and> records_for post old_path = []"
      by (simp add: d(1,3) records_for_append) (simp add: records_for_def d(3))
    then have "records_for tokens' old_path = []"
      using ne by (simp add: d(4) records_for_append) (simp add: records_for_def dict_get_update)
    then have "first_match tokens' old_path = None"
      by (simp add: first_match_records)
    then show ?thesis by (simp add: get_share_token_def w')
  qed
  from a b show ?thesis by blast
qed

lemma get_share_token_shared_world:
  "get_share_token shared_world ''data'' ''notes/a.md'' = Return (Some ''Ab3_xY-0Ab3_xY-0'')"
  by (simp add: get_share_token_def load_tokens_shared_world first_match_shared_table)
     (simp add: shared_table_def)

theorem update_token_path_keeps_token_witness:
  "load_tokens shared_world ''data'' = Return shared_table \<and>
   distinct (map fst shared_table) \<and>
   get_share_token shared_world ''data'' ''notes/a.md'' = Return (Some ''Ab3_xY-0Ab3_xY-0'') \<and>
   update_token_path shared_world ''data'' ''notes/a.md'' ''notes/b.md'' =
     (Return True, renamed_world) \<and>
   ''notes/a.md'' \<noteq> ''notes/b.md'' \<and>
   length (records_for shared_table ''notes/a.md'') = 1 \<and>
   (\<exists>theme. get_note_by_token renamed_world ''data'' ''Ab3_xY-0Ab3_xY-0'' =
              Return (Some [(''path'', Str ''notes/b.md''), (''theme'', theme)])) \<and>
   get_share_token renamed_world ''data'' ''notes/a.md'' = Return None"
proof -
  have d: "distinct (map fst shared_table)" by (simp add: shared_table_def)
  have ne: "''notes/a.md'' \<noteq> ''notes/b.md''" by simp
  have one: "length (records_for shared_table ''notes/a.md'') = 1"
    by (simp add: records_for_def shared_table_def dict_get_def)
  note t = update_token_path_keeps_token
             [OF load_tokens_shared_world d get_share_token_shared_world update_shared_world]
  show ?thesis
    by (intro conjI load_tokens_shared_world d get_share_token_shared_world
          update_shared_world ne one t [THEN conjunct1]
          t [THEN conjunct2, THEN mp, OF conjI [OF ne one]])
qed

text \<open>
  The claim as stated, for every record with the old path, fails on a table where two
  tokens have the path \<open>a.md\<close>: the rename changes the first record, and the second
  token still resolves to \<open>a.md\<close>.
\<close>

theorem update_token_path_second_record_counterexample:
  "load_tokens twin_world ''data'' = Return twin_table \<and>
   map_of twin_table ''tokenBBBBBBBBBBB'' =
     Some [(''path'', ''a.md''), (''theme'', ''light''),
           (''created'', ''2024-01-16T08:00:00+00:00'')] \<and>
   update_token_path twin_world ''data'' ''a.md'' ''b.md'' = (Return True, twin_renamed_world) \<and>
   get_note_by_token twin_renamed_world ''data'' ''tokenBBBBBBBBBBB'' =
     Return (Some [(''path'', Str ''a.md''), (''theme'', Str ''light'')])"
proof -
  have m: "map_of twin_table ''tokenBBBBBBBBBBB'' =
     Some [(''path'', ''a.md''), (''theme'', ''light''),
           (''created'', ''2024-01-16T08:00:00+00:00'')]"
    by (simp add: twin_table_def)
  have g: "get_note_by_token twin_renamed_world ''data'' ''tokenBBBBBBBBBBB'' =
     Return (Some [(''path'', Str ''a.md''), (''theme'', Str ''light'')])"
    by (simp add: get_note_by_token_def load_tokens_twin_renamed_world)
       (simp add: twin_renamed_table_def dict_get_def dict_get_default_def)
  show ?thesis by (intro conjI load_tokens_twin_world m update_twin_world g)
qed

subsection \<open>The default theme\<close>

text \<open>
  Claim C8, as amended. For every token of the table whose record has no \<open>theme\<close>
  field, \<open>get_note_by_token\<close> resolves the theme to \<open>light\<close>; and \<open>get_share_info\<close> for
  a path reports the theme \<open>light\<close> when that record is the first record of the table
  with the path, the one the scan of \<open>get_share_info\<close> stops at.
\<close>

theorem default_theme_on_read:
  assumes "load_tokens w data_dir = Return tokens"
      and "map_of tokens token = Some info"
      and "map_of info ''theme'' = None"
    shows "get_note_by_token w data_dir token =
             Return (Some [(''path'', dict_get info ''path''), (''theme'', Str ''light'')]) \<and>
           (first_match tokens note_path = Some (token, info) \<longrightarrow>
              get_share_info w data_dir note_path =
                Return [(''token'', Str token), (''theme'', Str ''light''),
                        (''created'', dict_get info ''created''), (''shared'', Bool True)])"
  using assms
  by (simp add: get_note_by_token_def get_share_info_def dict_get_default_def)

lemma legacy_lookup: "map_of legacy_table ''tokenBBBBBBBBBBB'' = Some [(''path'', ''a.md'')]"
  by (simp add: legacy_table_def)

lemma legacy_no_theme: "map_of [(''path'', ''a.md'')] ''theme'' = (None :: string option)"
  by simp

lemma load_tokens_legacy_single_world:
  "load_tokens legacy_single_world ''data'' = Return legacy_single_table"
  by (simp add: legacy_single_world_def load_tokens_def)

theorem default_theme_on_read_witness:
  "load_tokens legacy_single_world ''data'' = Return legacy_single_table \<and>
   map_of legacy_single_table ''tokenBBBBBBBBBBB'' = Some [(''path'', ''a.md'')] \<and>
   map_of [(''path'', ''a.md'')] ''theme'' = (None :: string option) \<and>
   first_match legacy_single_table ''a.md'' = Some (''tokenBBBBBBBBBBB'', [(''path'', ''a.md'')]) \<and>
   get_note_by_token legacy_single_world ''data'' ''tokenBBBBBBBBBBB'' =
     Return (Some [(''path'', dict_get [(''path'', ''a.md'')] ''path''), (''theme'', Str ''light'')]) \<and>
   get_share_info legacy_single_world ''data'' ''a.md'' =
     Return [(''token'', Str ''tokenBBBBBBBBBBB''), (''theme'', Str ''light''),
             (''created'', dict_get [(''path'', ''a.md'')] ''created''), (''shared'', Bool True)]"
proof -
  have m: "map_of legacy_single_table ''tokenBBBBBBBBBBB'' = Some [(''path'', ''a.md'')]"
    by (simp add: legacy_single_table_def)
  have f: "first_match legacy_single_table ''a.md'' =
             Some (''tokenBBBBBBBBBBB'', [(''path'', ''a.md'')])"
    by (simp add: legacy_single_table_def dict_get_def)
  note t = default_theme_on_read [OF load_tokens_legacy_single_world m legacy_no_theme]
  show ?thesis
    by (intro conjI load_tokens_legacy_single_world m legacy_no_theme f t [THEN conjunct1]
          t [THEN conjunct2, THEN mp, OF f])
qed

text \<open>
  The claim as stated, for every record without a theme, fails where an earlier record
  has the same path and a theme: \<open>get_share_info\<close> reports the theme of the earlier one.
\<close>

theorem default_theme_shadowed_counterexample:
  "load_tokens legacy_world ''data'' = Return legacy_table \<and>
   map_of legacy_table ''tokenBBBBBBBBBBB'' = Some [(''path'', ''a.md'')] \<and>
   map_of [(''path'', ''a.md'')] ''theme'' = (None :: string option) \<and>
   get_share_info legacy_world ''data'' ''a.md'' =
     Return [(''token'', Str ''tokenAAAAAAAAAAA''), (''theme'', Str ''dark''),
             (''created'', Str ''2024-01-15T10:30:00+00:00''), (''shared'', Bool True)]"
proof -
  have g: "get_share_info legacy_world ''data'' ''a.md'' =
     Return [(''token'', Str ''tokenAAAAAAAAAAA''), (''theme'', Str ''dark''),
             (''created'', Str ''2024-01-15T10:30:00+00:00''), (''shared'', Bool True)]"
    by (simp add: get_share_info_def load_tokens_legacy_world)
       (simp add: legacy_table_def dict_get_def dict_get_default_def)
  show ?thesis by (intro conjI load_tokens_legacy_world legacy_lookup legacy_no_theme g)
qed

subsection \<open>Creating and resolving\<close>

lemma create_share_token_Some:
  assumes "create_share_token w d p t = Some (Return (Some token), w')"
      and "load_tokens w d = Return tokens"
    shows "(\<exists>info. first_match tokens p = Some (token, info) \<and> w' = w) \<or>
           (first_match tokens p = None \<and>
            (\<exists>w1. w' = w1\<lparr>files := (files w1)
                     (d := Parsed (AList.update token
                             [(''path'', p), (''theme'', t), (''created'', now w1)] tokens))\<rparr>))"
  using assms
  by (auto simp: create_share_token_def save_tokens_def
           split: option.splits prod.splits if_splits)

text \<open>
  Claim C1, as amended. When \<open>create_share_token\<close> returns a token, \<open>get_note_by_token\<close>
  returns for it the path that was given, and as theme the theme that was given when the
  table had no record for the path before the call; when it had one, the token is the
  one of that record and the theme is the stored one (\<open>light\<close> when the record has none).
  The keys of the table are distinct, as those of a dictionary are.
\<close>

theorem create_then_get_note:
  assumes "load_tokens w data_dir = Return tokens"
      and "distinct (map fst tokens)"
      and "create_share_token w data_dir note_path theme = Some (Return (Some token), w')"
    shows "get_note_by_token w' data_dir token =
             Return (Some [(''path'', Str note_path),
                           (''theme'',
                            (case first_match tokens note_path of
                               None \<Rightarrow> Str theme
                             | Some (token0, info) \<Rightarrow>
                                 dict_get_default info ''theme'' ''light''))])"
proof -
  from create_share_token_Some[OF assms(3,1)]
  consider info where "first_match tokens note_path = Some (token, info)" "w' = w"
    | w1 where "first_match tokens note_path = None"
        "w' = w1\<lparr>files := (files w1)
                     (data_dir := Parsed (AList.update token
                        [(''path'', note_path), (''theme'', theme), (''created'', now w1)]
                        tokens))\<rparr>"
    by blast
  then show ?thesis
  proof cases
    case 1
    from first_match_map_of[OF assms(2) 1(1)] first_match_mem[OF 1(1)] assms(1) 1
    show ?thesis by (simp add: get_note_by_token_def)
  next
    case 2
    then show ?thesis
      by (simp add: get_note_by_token_def AList.update_conv' dict_get_def dict_get_default_def)
  qed
qed

lemma join_choices_world: "snd (join_choices k w) = w\<lparr>cursor := cursor w + k\<rparr>"
proof (induction k arbitrary: w)
  case 0
  show ?case by simp
next
  case (Suc k)
  obtain c w1 where c: "choice w alphabet = (c, w1)" by (cases "choice w alphabet")
  obtain cs w2 where cs: "join_choices k w1 = (cs, w2)" by (cases "join_choices k w1")
  from c have w1: "w1 = w\<lparr>cursor := Suc (cursor w)\<rparr>" by (simp add: choice_def)
  from cs have "w2 = w1\<lparr>cursor := cursor w1 + k\<rparr>" using Suc.IH[of w1] by simp
  with c cs w1 show ?case by simp
qed

lemma generate_token_world:
  "snd (generate_token w default_length) = w\<lparr>cursor := cursor w + 16\<rparr>"
  by (simp add: generate_token_def default_length_def join_choices_world)

lemma regenerate_unused:
  "token \<notin> set (map fst tokens) \<Longrightarrow> regenerate tokens token w = Some (token, w)"
  by (subst regenerate.simps) simp

lemma update_unused: "k \<notin> set (map fst al) \<Longrightarrow> AList.update k v al = al @ [(k, v)]"
  by (induction al) auto

lemma create_share_token_new:
  assumes "load_tokens w d = Return tokens"
      and "first_match tokens p = None"
      and "fst (generate_token w default_length) = token"
      and "token \<notin> set (map fst tokens)"
      and "writable w d"
    shows "create_share_token w d p t =
             Some (Return (Some token),
                   w\<lparr>cursor := cursor w + 16,
                     files := (files w)(d := Parsed (tokens @
                        [(token, [(''path'', p), (''theme'', t), (''created'', now w)])]))\<rparr>)"
proof -
  have g: "generate_token w default_length = (token, w\<lparr>cursor := cursor w + 16\<rparr>)"
    using assms(3) generate_token_world[of w] by (cases "generate_token w default_length") simp
  show ?thesis
    using assms(1,2,4,5)
    by (simp add: create_share_token_def g regenerate_unused save_tokens_def update_unused)
qed

lemma first_token: "fst (generate_token fresh_world default_length) = ''abcdefghijklmnop''"
  by code_simp

lemma load_tokens_fresh_world: "load_tokens fresh_world ''data'' = Return []"
  by (simp add: fresh_world_def load_tokens_def)

lemma load_tokens_first_world: "load_tokens first_world ''data'' = Return first_table"
  by (simp add: first_world_def load_tokens_def)

lemma create_fresh_world:
  "create_share_token fresh_world ''data'' ''notes/a.md'' ''dark'' =
     Some (Return (Some ''abcdefghijklmnop''), first_world)"
proof -
  have "create_share_token fresh_world ''data'' ''notes/a.md'' ''dark'' =
          Some (Return (Some ''abcdefghijklmnop''),
                fresh_world\<lparr>cursor := cursor fresh_world + 16,
                  files := (files fresh_world)(''data'' := Parsed ([] @
                    [(''abcdefghijklmnop'', [(''path'', ''notes/a.md''), (''theme'', ''dark''),
                        (''created'', now fresh_world)])]))\<rparr>)"
    by (rule create_share_token_new [OF load_tokens_fresh_world _ first_token])
       (simp_all add: fresh_world_def)
  then show ?thesis
    by (simp add: first_world_def first_table_def fresh_world_def)
qed

theorem create_then_get_note_witness:
  "load_tokens fresh_world ''data'' = Return [] \<and>
   distinct (map fst ([] :: table)) \<and>
   create_share_token fresh_world ''data'' ''notes/a.md'' ''dark'' =
     Some (Return (Some ''abcdefghijklmnop''), first_world) \<and>
   get_note_by_token first_world ''data'' ''abcdefghijklmnop'' =
     Return (Some [(''path'', Str ''notes/a.md''), (''theme'', Str ''dark'')])"
proof -
  have d: "distinct (map fst ([] :: table))" by simp
  from create_then_get_note [OF load_tokens_fresh_world d create_fresh_world]
  have g: "get_note_by_token first_world ''data'' ''abcdefghijklmnop'' =
     Return (Some [(''path'', Str ''notes/a.md''), (''theme'', Str ''dark'')])"
    by simp
  show ?thesis by (intro conjI load_tokens_fresh_world d create_fresh_world g)
qed

text \<open>
  The claim as stated, with the theme of the call, fails for a path that is shared
  already: the call with \<open>light\<close> returns the existing token, whose theme stays \<open>dark\<close>.
\<close>

theorem create_keeps_first_theme_counterexample:
  "create_share_token shared_world ''data'' ''notes/a.md'' ''light'' =
     Some (Return (Some ''Ab3_xY-0Ab3_xY-0''), shared_world) \<and>
   get_note_by_token shared_world ''data'' ''Ab3_xY-0Ab3_xY-0'' =
     Return (Some [(''path'', Str ''notes/a.md''), (''theme'', Str ''dark'')])"
proof -
  have c: "create_share_token shared_world ''data'' ''notes/a.md'' ''light'' =
     Some (Return (Some ''Ab3_xY-0Ab3_xY-0''), shared_world)"
    by (simp add: create_share_token_def load_tokens_shared_world first_match_shared_table)
       (simp add: shared_table_def)
  have g: "get_note_by_token shared_world ''data'' ''Ab3_xY-0Ab3_xY-0'' =
     Return (Some [(''path'', Str ''notes/a.md''), (''theme'', Str ''dark'')])"
    by (simp add: get_note_by_token_def load_tokens_shared_world)
       (simp add: shared_table_def dict_get_def dict_get_default_def)
  show ?thesis by (intro conjI c g)
qed

subsection \<open>One token for a path\<close>

lemma records_for_update_le:
  "length (records_for (AList.update k info tokens) q) \<le>
     length (records_for tokens q) + (if dict_get info ''path'' = Str q then 1 else 0)"
  by (induction tokens) (auto simp: records_for_def)

lemma records_for_delete_le:
  "length (records_for (AList.delete k tokens) q) \<le> length (records_for tokens q)"
  by (simp add: records_for_delete)

lemma first_match_None_records: "first_match tokens p = None \<longleftrightarrow> records_for tokens p = []"
  by (simp add: first_match_records split: list.splits)

lemma load_tokens_records:
  assumes "one_token_per_path w" "load_tokens w d = Return tokens"
  shows "length (records_for tokens p) \<le> 1"
proof (cases "files w d")
  case Missing
  with assms(2) show ?thesis by (simp add: load_tokens_def records_for_def)
next
  case (Unreadable e)
  with assms(2) show ?thesis by (simp add: load_tokens_def records_for_def split: if_splits)
next
  case (Parsed ts)
  with assms(2) have "ts = tokens" by (simp add: load_tokens_def)
  with Parsed assms(1) show ?thesis by (simp add: one_token_per_path_def)
qed

lemma one_token_per_path_write:
  assumes "one_token_per_path w" "\<And>p. length (records_for tokens' p) \<le> 1"
  shows "one_token_per_path (w\<lparr>files := (files w)(d := Parsed tokens')\<rparr>)"
  using assms by (auto simp: one_token_per_path_def)

lemma generate_token_files: "files (snd (generate_token w n)) = files w"
  by (simp add: generate_token_def join_choices_world)
lemma regenerate_files:
  assumes "regenerate tokens token w = Some y"
  shows "files (snd y) = files w"
  using assms
proof (rule regenerate.raw_induct
         [where P = "\<lambda>tokens token w y. files (snd y) = files w", rotated])
  fix regen :: "table \<Rightarrow> string \<Rightarrow> world \<Rightarrow> (string \<times> world) option"
    and tokens token w y
  assume IH: "\<And>tokens token w y. regen tokens token w = Some y \<Longrightarrow> files (snd y) = files w"
    and eq: "(if token \<in> set (map fst tokens)
              then regen tokens (fst (generate_token w default_length))
                     (snd (generate_token w default_length))
              else Some (token, w)) = Some y"
  show "files (snd y) = files w"
  proof (cases "token \<in> set (map fst tokens)")
    case True
    with eq have "regen tokens (fst (generate_token w default_length))
                    (snd (generate_token w default_length)) = Some y"
      by simp
    from IH[OF this] show ?thesis by (simp add: generate_token_files)
  next
    case False
    with eq show ?thesis by auto
  qed
qed
lemma regenerate_unique:
  assumes "regenerate tokens token w = Some y"
  shows "fst y \<notin> set (map fst tokens)"
  using assms
proof (rule regenerate.raw_induct
         [where P = "\<lambda>tokens token w y. fst y \<notin> set (map fst tokens)", rotated])
  fix regen :: "table \<Rightarrow> string \<Rightarrow> world \<Rightarrow> (string \<times> world) option"
    and tokens token w y
  assume IH: "\<And>tokens token w y. regen tokens token w = Some y \<Longrightarrow>
                fst y \<notin> set (map fst tokens)"
    and eq: "(if token \<in> set (map fst tokens)
              then regen tokens (fst (generate_token w default_length))
                     (snd (generate_token w default_length))
              else Some (token, w)) = Some y"
  show "fst y \<notin> set (map fst tokens)"
  proof (cases "token \<in> set (map fst tokens)")
    case True
    with eq have "regen tokens (fst (generate_token w default_length))
                    (snd (generate_token w default_length)) = Some y"
      by simp
    from IH[OF this] show ?thesis .
  next
    case False
    with eq have "y = (token, w)" by simp
    with False show ?thesis by simp
  qed
qed

lemma create_keeps:
  assumes inv: "one_token_per_path w"
      and c: "create_share_token w d p t = Some (r, w')"
    shows "one_token_per_path w'"
proof (cases "load_tokens w d")
  case (Raise e)
  with c have "w' = w" by (simp add: create_share_token_def)
  with inv show ?thesis by simp
next
  case (Return tokens)
  show ?thesis
  proof (cases "first_match tokens p")
    case (Some r0)
    with c Return have "w' = w" by (auto simp: create_share_token_def split: prod.splits)
    with inv show ?thesis by simp
  next
    case None
    with c Return obtain token w1 where
      w': "w' = w1 \<or> w' = w1\<lparr>files := (files w1)(d := Parsed (AList.update token
                    [(''path'', p), (''theme'', t), (''created'', now w1)] tokens))\<rparr>"
      and g: "regenerate tokens (fst (generate_token w default_length))
                (snd (generate_token w default_length)) = Some (token, w1)"
      by (auto simp: create_share_token_def save_tokens_def
               split: prod.splits option.splits if_splits)
    from regenerate_files[OF g] have f: "files w1 = files w"
      by (simp add: generate_token_files)
    with inv have inv1: "one_token_per_path w1" by (simp add: one_token_per_path_def)
    have le: "length (records_for (AList.update token
                [(''path'', p), (''theme'', t), (''created'', now w1)] tokens) q) \<le> 1" for q
    proof (cases "q = p")
      case True
      from None have "records_for tokens p = []" by (simp add: first_match_None_records)
      with records_for_update_le[of token
             "[(''path'', p), (''theme'', t), (''created'', now w1)]" tokens p] True
      show ?thesis by (simp add: dict_get_def)
    next
      case False
      with records_for_update_le[of token
             "[(''path'', p), (''theme'', t), (''created'', now w1)]" tokens q]
        load_tokens_records[OF inv Return, of q]
      show ?thesis by (simp add: dict_get_def)
    qed
    from w' show ?thesis
    proof
      assume "w' = w1"
      with inv1 show ?thesis by simp
    next
      assume "w' = w1\<lparr>files := (files w1)(d := Parsed (AList.update token
                    [(''path'', p), (''theme'', t), (''created'', now w1)] tokens))\<rparr>"
      with one_token_per_path_write[OF inv1 le] show ?thesis by simp
    qed
  qed
qed

lemma revoke_keeps:
  assumes inv: "one_token_per_path w"
      and c: "revoke_share_token w d p = (r, w')"
    shows "one_token_per_path w'"
proof (cases "load_tokens w d")
  case (Raise e)
  with c have "w' = w" by (simp add: revoke_share_token_def)
  with inv show ?thesis by simp
next
  case (Return tokens)
  with c have "w' = w \<or> (\<exists>token. w' = w\<lparr>files := (files w)(d := Parsed (AList.delete token tokens))\<rparr>)"
    by (auto simp: revoke_share_token_def save_tokens_def split: option.splits if_splits)
  then show ?thesis
  proof
    assume "w' = w"
    with inv show ?thesis by simp
  next
    assume "\<exists>token. w' = w\<lparr>files := (files w)(d := Parsed (AList.delete token tokens))\<rparr>"
    then obtain token where
      w': "w' = w\<lparr>files := (files w)(d := Parsed (AList.delete token tokens))\<rparr>" ..
    have "length (records_for (AList.delete token tokens) q) \<le> 1" for q
      using records_for_delete_le[of token tokens q] load_tokens_records[OF inv Return, of q]
      by simp
    from one_token_per_path_write[OF inv this] w' show ?thesis by simp
  qed
qed

lemma update_keeps:
  assumes inv: "one_token_per_path w"
      and apart: "new_path = old_path \<or> get_share_token w d new_path = Return None"
      and c: "update_token_path w d old_path new_path = (r, w')"
    shows "one_token_per_path w'"
proof (cases "load_tokens w d")
  case (Raise e)
  with c have "w' = w" by (simp add: update_token_path_def)
  with inv show ?thesis by simp
next
  case (Return tokens)
  show ?thesis
  proof (cases "set_path tokens old_path new_path")
    case None
    with c Return have "w' = w" by (simp add: update_token_path_def)
    with inv show ?thesis by simp
  next
    case (Some tokens')
    with c Return have w': "w' = w \<or> w' = w\<lparr>files := (files w)(d := Parsed tokens')\<rparr>"
      by (auto simp: update_token_path_def save_tokens_def split: if_splits)
    from set_path_Some[OF Some] obtain pre token info post where
      d: "tokens = pre @ (token, info) # post" "first_match pre old_path = None"
         "dict_get info ''path'' = Str old_path"
         "tokens' = pre @ (token, AList.update ''path'' new_path info) # post"
      by blast
    have le: "length (records_for tokens' q) \<le> 1" for q
    proof (cases "new_path = old_path")
      case True
      have "length (records_for tokens' q) = length (records_for tokens q)"
        by (simp add: d(1,4) records_for_append True)
           (simp add: records_for_def dict_get_update d(3) True)
      with load_tokens_records[OF inv Return, of q] show ?thesis by simp
    next
      case False
      with apart Return have "first_match tokens new_path = None"
        by (auto simp: get_share_token_def split: option.splits)
      then have none: "records_for pre new_path = []" "records_for post new_path = []"
        by (simp_all add: first_match_None_records d(1) records_for_append)
           (simp add: records_for_def split: if_splits)
      show ?thesis
      proof (cases "q = new_path")
        case True
        with none show ?thesis
          by (simp add: d(4) records_for_append) (simp add: records_for_def dict_get_update)
      next
        case qn: False
        have "length (records_for tokens' q) \<le> length (records_for tokens q)"
          using qn by (simp add: d(1,4) records_for_append)
                      (simp add: records_for_def dict_get_update)
        with load_tokens_records[OF inv Return, of q] show ?thesis by simp
      qed
    qed
    from w' show ?thesis
    proof
      assume "w' = w"
      with inv show ?thesis by simp
    next
      assume "w' = w\<lparr>files := (files w)(d := Parsed tokens')\<rparr>"
      with one_token_per_path_write[OF inv le] show ?thesis by simp
    qed
  qed
qed

lemma reachable_apart_invariant: "reachable_apart w \<Longrightarrow> one_token_per_path w"
proof (induction rule: reachable_apart.induct)
  case (start w)
  then show ?case by (simp add: one_token_per_path_def)
next
  case (create w d p t r w')
  then show ?case using create_keeps by blast
next
  case (revoke w d p r w')
  then show ?case using revoke_keeps by blast
next
  case (update w new_path old_path d r w')
  then show ?case using update_keeps by blast
next
  case (outside w w')
  then show ?case by (simp add: one_token_per_path_def)
qed

text \<open>
  Claim C2, as amended. In every table reachable from the empty table by
  \<open>create_share_token\<close>, \<open>revoke_share_token\<close> and those \<open>update_token_path\<close> calls whose new
  path is the old one or a path that no record has, at most one record has any given
  path.
\<close>

theorem one_token_per_path_reachable:
  "reachable_apart w \<Longrightarrow> load_tokens w data_dir = Return tokens \<Longrightarrow>
     length (records_for tokens note_path) \<le> 1"
  using load_tokens_records [OF reachable_apart_invariant] by blast

lemma second_token: "fst (generate_token first_world default_length) = ''qrstuvwxyzABCDEF''"
  by code_simp

lemma load_tokens_second_world: "load_tokens second_world ''data'' = Return second_table"
  by (simp add: second_world_def load_tokens_def)

lemma load_tokens_clash_world: "load_tokens clash_world ''data'' = Return clash_table"
  by (simp add: clash_world_def load_tokens_def)

lemma load_tokens_moved_world: "load_tokens moved_world ''data'' = Return moved_table"
  by (simp add: moved_world_def load_tokens_def)

lemma create_first_world:
  "create_share_token first_world ''data'' ''notes/b.md'' ''light'' =
     Some (Return (Some ''qrstuvwxyzABCDEF''), second_world)"
proof -
  have "create_share_token first_world ''data'' ''notes/b.md'' ''light'' =
          Some (Return (Some ''qrstuvwxyzABCDEF''),
                first_world\<lparr>cursor := cursor first_world + 16,
                  files := (files first_world)(''data'' := Parsed (first_table @
                    [(''qrstuvwxyzABCDEF'', [(''path'', ''notes/b.md''), (''theme'', ''light''),
                        (''created'', now first_world)])]))\<rparr>)"
    by (rule create_share_token_new [OF load_tokens_first_world _ second_token])
       (simp_all add: first_world_def fresh_world_def first_table_def dict_get_def)
  then show ?thesis
    by (simp add: first_world_def second_world_def first_table_def second_table_def
          fresh_world_def)
qed

lemma update_second_world:
  "update_token_path second_world ''data'' ''notes/a.md'' ''notes/b.md'' =
     (Return True, clash_world)"
  by (simp add: update_token_path_def load_tokens_second_world)
     (simp add: second_table_def clash_table_def dict_get_def save_tokens_def
        second_world_def clash_world_def fresh_world_def)

lemma update_first_world:
  "update_token_path first_world ''data'' ''notes/a.md'' ''notes/c.md'' =
     (Return True, moved_world)"
  by (simp add: update_token_path_def load_tokens_first_world)
     (simp add: first_table_def moved_table_def dict_get_def save_tokens_def
        first_world_def moved_world_def fresh_world_def)

lemma get_share_token_first_world:
  "get_share_token first_world ''data'' ''notes/c.md'' = Return None"
  by (simp add: get_share_token_def load_tokens_first_world)
     (simp add: first_table_def dict_get_def)

theorem one_token_per_path_reachable_witness:
  "reachable_apart moved_world \<and>
   load_tokens moved_world ''data'' = Return moved_table \<and>
   length (records_for moved_table ''notes/c.md'') \<le> 1"
proof -
  have "reachable_apart fresh_world"
    by (rule reachable_apart.start) (simp add: fresh_world_def)
  then have "reachable_apart first_world"
    by (rule reachable_apart.create) (rule create_fresh_world)
  then have r: "reachable_apart moved_world"
    by (rule reachable_apart.update)
       (rule disjI2, rule get_share_token_first_world, rule update_first_world)
  from r load_tokens_moved_world
    one_token_per_path_reachable [OF r load_tokens_moved_world, of "''notes/c.md''"]
  show ?thesis by (intro conjI)
qed

text \<open>
  The claim as stated, for every \<open>update_token_path\<close> call, fails: two notes are shared and
  the first is renamed to the path of the second; both tokens then have that path.
\<close>

theorem two_tokens_one_path_counterexample:
  "reachable clash_world \<and>
   load_tokens clash_world ''data'' = Return clash_table \<and>
   map fst (records_for clash_table ''notes/b.md'') = [''abcdefghijklmnop'', ''qrstuvwxyzABCDEF''] \<and>
   length (records_for clash_table ''notes/b.md'') = 2"
proof -
  have "reachable fresh_world"
    by (rule reachable.start) (simp add: fresh_world_def)
  then have "reachable first_world"
    by (rule reachable.create) (rule create_fresh_world)
  then have "reachable second_world"
    by (rule reachable.create) (rule create_first_world)
  then have r: "reachable clash_world"
    by (rule reachable.update) (rule update_second_world)
  have m: "map fst (records_for clash_table ''notes/b.md'') =
             [''abcdefghijklmnop'', ''qrstuvwxyzABCDEF'']"
    by (simp add: records_for_def clash_table_def dict_get_def)
  have l: "length (records_for clash_table ''notes/b.md'') = 2"
    by (simp add: records_for_def clash_table_def dict_get_def)
  show ?thesis by (intro conjI r load_tokens_clash_world m l)
qed

subsection \<open>What the callers get on failure\<close>

lemma revoke_share_token_result:
  "load_tokens w d = Return tokens \<Longrightarrow>
     fst (revoke_share_token w d p) =
       Return ((\<exists>token info. first_match tokens p = Some (token, info) \<and> token \<noteq> []) \<and>
               writable w d)"
  by (auto simp: revoke_share_token_def save_tokens_def split: option.splits)

lemma revoke_share_token_raises:
  "load_tokens w d = Raise e \<Longrightarrow> revoke_share_token w d p = (Raise e, w)"
  by (simp add: revoke_share_token_def)

lemma load_tokens_empty_key_world:
  "load_tokens empty_key_world ''data'' = Return empty_key_table"
  by (simp add: empty_key_world_def load_tokens_def)

text \<open>
  Claim C6 says that \<open>revoke_share_token\<close> returns \<open>True\<close> exactly when a record with the
  path was found and the save succeeded, and that it never raises. The function does so
  when the file can be loaded and the token found is not the empty string
  (\<open>revoke_share_token_result\<close>); it hands on what \<open>load_tokens\<close> raises
  (\<open>revoke_share_token_raises\<close>). Here the record is found under the empty token in a
  directory that can be written: \<open>if token_to_remove:\<close> is false for the empty string, so
  the function returns \<open>False\<close> and the record stays.
\<close>

theorem revoke_empty_token_key:
  "load_tokens empty_key_world ''data'' = Return empty_key_table \<and>
   first_match empty_key_table ''a.md'' = Some (hd empty_key_table) \<and>
   fst (hd empty_key_table) = '''' \<and>
   writable empty_key_world ''data'' \<and>
   revoke_share_token empty_key_world ''data'' ''a.md'' = (Return False, empty_key_world)"
proof -
  have f: "first_match empty_key_table ''a.md'' = Some (hd empty_key_table)"
    by (simp add: empty_key_table_def dict_get_def)
  have k: "fst (hd empty_key_table) = ''''"
    by (simp add: empty_key_table_def)
  have w: "writable empty_key_world ''data''"
    by (simp add: empty_key_world_def fresh_world_def)
  have r: "revoke_share_token empty_key_world ''data'' ''a.md'' =
             (Return False, empty_key_world)"
    by (simp add: revoke_share_token_def load_tokens_empty_key_world f)
       (simp add: empty_key_table_def)
  show ?thesis by (intro conjI load_tokens_empty_key_world f k w r)
qed

lemma load_tokens_degrades:
  "files w d = Missing \<or> files w d = Unreadable JSONDecodeError \<or>
   files w d = Unreadable OSError \<Longrightarrow> load_tokens w d = Return []"
  by (auto simp: load_tokens_def)

lemma load_tokens_Raise:
  "load_tokens w d = Raise e \<Longrightarrow> files w d = Unreadable e \<and> e = UnicodeDecodeError"
  by (cases "files w d"; cases e) (auto simp: load_tokens_def split: if_splits)

lemma create_after_unparsable:
  assumes "files w d = Missing \<or> files w d = Unreadable JSONDecodeError \<or>
           files w d = Unreadable OSError"
      and "writable w d"
    shows "create_share_token w d p t =
             Some (Return (Some (fst (generate_token w default_length))),
                   w\<lparr>cursor := cursor w + 16,
                     files := (files w)(d := Parsed
                        [(fst (generate_token w default_length),
                          [(''path'', p), (''theme'', t), (''created'', now w)])])\<rparr>)"
  using create_share_token_new [OF load_tokens_degrades [OF assms(1)] _ refl _ assms(2),
          of p t]
  by simp

text \<open>
  Claim C7 says that \<open>load_tokens\<close> returns the empty table for a file that fails to
  read or to parse, and never raises. It does for an absent file, a \<open>JSONDecodeError\<close>
  and an \<open>OSError\<close> (\<open>load_tokens_degrades\<close>), and \<open>create_share_token\<close> then writes a
  table with the one new record when the directory can be written
  (\<open>create_after_unparsable\<close>). The \<open>except\<close> clause does not name the
  \<open>UnicodeDecodeError\<close> of a file that is not UTF-8: here \<open>load_tokens\<close> raises it, and
  so does the \<open>create_share_token\<close> that follows.
\<close>

theorem load_tokens_undecodable:
  "files undecodable_world ''data'' = Unreadable UnicodeDecodeError \<and>
   load_tokens undecodable_world ''data'' = Raise UnicodeDecodeError \<and>
   create_share_token undecodable_world ''data'' ''notes/a.md'' ''light'' =
     Some (Raise UnicodeDecodeError, undecodable_world)"
proof -
  have f: "files undecodable_world ''data'' = Unreadable UnicodeDecodeError"
    by (simp add: undecodable_world_def)
  have l: "load_tokens undecodable_world ''data'' = Raise UnicodeDecodeError"
    by (simp add: load_tokens_def f)
  have c: "create_share_token undecodable_world ''data'' ''notes/a.md'' ''light'' =
     Some (Raise UnicodeDecodeError, undecodable_world)"
    by (simp add: create_share_token_def l)
  show ?thesis by (intro conjI f l c)
qed

end
